theory Spec2Isabelle
  imports Complex_Main
begin

section \<open>Values, errors and strings\<close>

text \<open>
  The server is Python. Its strings are modelled as HOL strings: a character is one of the
  256 code points below U+0100 (the Latin-1 range), which is what an 8-bit \<open>char\<close> can hold.
  The formula library (temperature, unit conversion, statistics) computes with floats; its
  arithmetic is modelled on \<open>real\<close>, that is on finite values, without rounding and
  without overflow. The round trip of the unit conversion is a property of the rounding
  itself: for it the two conversion functions are given a second time, on IEEE-754 doubles
  (\<open>convert_temperature_float\<close>, \<open>convert_units_float\<close>).
  A raised exception is a value of type \<open>error\<close>, carrying the message.
\<close>

datatype error =
    ValueError string
  | StatisticsError  \<comment> \<open>statistics.StatisticsError, a subclass of ValueError\<close>
  | ZeroDivisionError  \<comment> \<open>raised by \<open>/\<close> on a zero divisor\<close>

text \<open>\<open>str.isalpha\<close> on one character, for the code points below U+0100.\<close>

definition isalpha :: "char \<Rightarrow> bool" where
  "isalpha c =
     (let n = (of_char c :: nat)
      in (65 \<le> n \<and> n \<le> 90) \<or> (97 \<le> n \<and> n \<le> 122) \<or> n = 170 \<or> n = 181 \<or> n = 186
         \<or> (192 \<le> n \<and> n \<le> 214) \<or> (216 \<le> n \<and> n \<le> 246) \<or> 248 \<le> n)"

text \<open>\<open>str.lower\<close>: the upper-case letters of the range move 32 code points up.\<close>

definition lower_char :: "char \<Rightarrow> char" where
  "lower_char c =
     (let n = (of_char c :: nat)
      in if (65 \<le> n \<and> n \<le> 90) \<or> (192 \<le> n \<and> n \<le> 214) \<or> (216 \<le> n \<and> n \<le> 222)
         then char_of (n + 32) else c)"

definition lower :: "string \<Rightarrow> string" where
  "lower s = map lower_char s"

section \<open>Temperature conversion\<close>

text \<open>
  \<open>convert_temperature\<close> (server.py, lines 117 to 133). Python reads \<open>x * 5/9\<close> as
  \<open>(x * 5) / 9\<close>. There is no raise in the function: its result is a plain number.
\<close>

definition convert_temperature :: "real \<Rightarrow> string \<Rightarrow> string \<Rightarrow> real" where
  "convert_temperature v from_unit to_unit =
     (let celsius =
        (if lower from_unit = ''f'' then (v - 32) * 5 / 9
         else if lower from_unit = ''k'' then v - 273.15
         else v)
      in if lower to_unit = ''f'' then celsius * 9 / 5 + 32
         else if lower to_unit = ''k'' then celsius + 273.15
         else celsius)"

section \<open>Unit conversion\<close>

record UnitConversionResult =
  original_value :: real
  original_unit :: string
  converted_value :: real
  target_unit :: string
  conversion_type :: string

text \<open>The conversion tables of \<open>convert_units\<close> (lines 261 to 269), as association lists.\<close>

definition length_table :: "(string \<times> real) list" where
  "length_table =
     [(''mm'', 1), (''cm'', 10), (''m'', 1000), (''km'', 1000000),
      (''in'', 25.4), (''ft'', 304.8), (''yd'', 914.4), (''mi'', 1609344)]"

definition weight_table :: "(string \<times> real) list" where
  "weight_table = [(''g'', 1), (''kg'', 1000), (''oz'', 28.35), (''lb'', 453.59)]"

definition conversions :: "(string \<times> (string \<times> real) list) list" where
  "conversions = [(''length'', length_table), (''weight'', weight_table)]"

text \<open>
  \<open>convert_units\<close> (lines 246 to 296). \<open>dict.get\<close> is \<open>map_of\<close>; \<open>not conversion_table\<close>
  holds for \<open>None\<close> and for an empty table.
\<close>

definition convert_units :: "real \<Rightarrow> string \<Rightarrow> string \<Rightarrow> string \<Rightarrow> error + UnitConversionResult" where
  "convert_units v from_unit to_unit unit_type =
     (let mk = (\<lambda>r. \<lparr>original_value = v, original_unit = from_unit, converted_value = r,
                      target_unit = to_unit, conversion_type = unit_type\<rparr>)
      in if unit_type = ''temperature'' then Inr (mk (convert_temperature v from_unit to_unit))
         else
           (case map_of conversions unit_type of
              None \<Rightarrow> Inl (ValueError (''Unknown unit type '' @ [CHR 0x27] @ unit_type @ [CHR 0x27]
                        @ ''. Available: length, weight, temperature''))
            | Some conversion_table \<Rightarrow>
                if conversion_table = [] then
                  Inl (ValueError (''Unknown unit type '' @ [CHR 0x27] @ unit_type @ [CHR 0x27]
                        @ ''. Available: length, weight, temperature''))
                else
                  (case map_of conversion_table (lower from_unit) of
                     None \<Rightarrow> Inl (ValueError (''Unknown '' @ unit_type @ '' unit '' @ [CHR 0x27]
                               @ from_unit @ [CHR 0x27]))
                   | Some from_factor \<Rightarrow>
                       (case map_of conversion_table (lower to_unit) of
                          None \<Rightarrow> Inl (ValueError (''Unknown '' @ unit_type @ '' unit '' @ [CHR 0x27]
                                    @ to_unit @ [CHR 0x27]))
                        | Some to_factor \<Rightarrow> Inr (mk (v * from_factor / to_factor))))))"

text \<open>
  The vocabulary of the specification, for stating the properties: the three temperature
  scales with the two halves of the pivot conversion, and the unit symbols of each unit
  type as the docstring of \<open>convert_units\<close> lists them.
\<close>

datatype temp_unit = Celsius | Fahrenheit | Kelvin

definition temp_unit_of :: "string \<Rightarrow> temp_unit" where
  "temp_unit_of u =
     (if u = ''f'' \<or> u = ''F'' then Fahrenheit
      else if u = ''k'' \<or> u = ''K'' then Kelvin
      else Celsius)"

fun to_celsius :: "temp_unit \<Rightarrow> real \<Rightarrow> real" where
  "to_celsius Fahrenheit v = (v - 32) * 5 / 9"
| "to_celsius Kelvin v = v - 273.15"
| "to_celsius Celsius v = v"

fun from_celsius :: "temp_unit \<Rightarrow> real \<Rightarrow> real" where
  "from_celsius Fahrenheit v = v * 9 / 5 + 32"
| "from_celsius Kelvin v = v + 273.15"
| "from_celsius Celsius v = v"

definition unit_names :: "string \<Rightarrow> string list" where
  "unit_names unit_type =
     (if unit_type = ''length'' then [''mm'', ''cm'', ''m'', ''km'', ''in'', ''ft'', ''yd'', ''mi'']
      else if unit_type = ''weight'' then [''g'', ''kg'', ''oz'', ''lb'']
      else if unit_type = ''temperature'' then [''c'', ''f'', ''k'']
      else [])"

definition belongs_to :: "string \<Rightarrow> string \<Rightarrow> bool" where
  "belongs_to unit_type u = (lower u \<in> set (unit_names unit_type))"

text \<open>What a call of \<open>convert_units\<close> yields: the converted value, or nothing when it raised.\<close>

definition converted :: "error + UnitConversionResult \<Rightarrow> real option" where
  "converted out = (case out of Inl e \<Rightarrow> None | Inr r \<Rightarrow> Some (converted_value r))"

section \<open>Descriptive statistics\<close>

record StatisticsResult =
  operation :: string
  input_data :: "real list"
  result :: real
  count :: nat

text \<open>
  The functions of Python's standard \<open>statistics\<close> module that the tool dispatches to
  (imported as \<open>stats\<close> at line 181). They are not code of the repository; they are written
  here as the library documents them, over exact arithmetic. Each raises \<open>StatisticsError\<close>
  on too little data. \<open>mode\<close> is the one of Python 3.8 and later, which the server needs
  anyway (its annotations subscript \<open>list\<close> and \<open>dict\<close>, which is Python 3.9): it counts
  the values in the order they are first seen and returns the first one of highest count.
\<close>

definition stats_mean :: "real list \<Rightarrow> error + real" where
  "stats_mean xs = (if xs = [] then Inl StatisticsError else Inr (sum_list xs / real (length xs)))"

definition stats_median :: "real list \<Rightarrow> error + real" where
  "stats_median xs =
     (if xs = [] then Inl StatisticsError
      else let s = sort xs; n = length s
           in if n mod 2 = 1 then Inr (s ! (n div 2))
              else Inr ((s ! (n div 2 - 1) + s ! (n div 2)) / 2))"

text \<open>The keys of \<open>Counter(iter(data))\<close>, in insertion order: each value where it is first seen.\<close>

fun first_seen :: "'a list \<Rightarrow> 'a list" where
  "first_seen [] = []"
| "first_seen (x # xs) = x # filter (\<lambda>y. y \<noteq> x) (first_seen xs)"

definition counter :: "'a list \<Rightarrow> ('a \<times> nat) list" where
  "counter xs = map (\<lambda>x. (x, count_list xs x)) (first_seen xs)"

text \<open>
  \<open>most_common(1)\<close> is \<open>max(items, key=count)\<close>: a scan that replaces the best item only
  by one of strictly greater count.
\<close>

fun first_max :: "('a \<times> nat) list \<Rightarrow> 'a \<times> nat \<Rightarrow> 'a \<times> nat" where
  "first_max [] best = best"
| "first_max (p # ps) best = first_max ps (if snd best < snd p then p else best)"

definition stats_mode :: "real list \<Rightarrow> error + real" where
  "stats_mode xs =
     (case counter xs of
        [] \<Rightarrow> Inl StatisticsError
      | p # ps \<Rightarrow> Inr (fst (first_max ps p)))"

definition stats_variance :: "real list \<Rightarrow> error + real" where
  "stats_variance xs =
     (if length xs < 2 then Inl StatisticsError
      else let xbar = sum_list xs / real (length xs)
           in Inr (sum_list (map (\<lambda>x. (x - xbar)\<^sup>2) xs) / real (length xs - 1)))"

definition stats_stdev :: "real list \<Rightarrow> error + real" where
  "stats_stdev xs = (case stats_variance xs of Inl e \<Rightarrow> Inl e | Inr var \<Rightarrow> Inr (sqrt var))"

text \<open>The dispatch table of \<open>statistics\<close> (lines 186 to 192), in the order it is written.\<close>

definition operations :: "(string \<times> (real list \<Rightarrow> error + real)) list" where
  "operations =
     [(''mean'', stats_mean),
      (''median'', stats_median),
      (''mode'', stats_mode),
      (''std_dev'', \<lambda>x. if length x > 1 then stats_stdev x else Inr 0),
      (''variance'', \<lambda>x. if length x > 1 then stats_variance x else Inr 0)]"

text \<open>
  \<open>statistics\<close> (lines 172 to 204). An error of the library function is not caught: it leaves
  the tool as it is.
\<close>

definition statistics :: "real list \<Rightarrow> string \<Rightarrow> error + StatisticsResult" where
  "statistics numbers op =
     (if numbers = [] then Inl (ValueError ''Cannot calculate statistics on empty list'')
      else
        (case map_of operations op of
           None \<Rightarrow>
             Inl (ValueError (''Unknown operation '' @ [CHR 0x27] @ op @ [CHR 0x27]
               @ ''. Available: ['' @ [CHR 0x27] @ ''mean'' @ [CHR 0x27] @ '', ''
               @ [CHR 0x27] @ ''median'' @ [CHR 0x27] @ '', ''
               @ [CHR 0x27] @ ''mode'' @ [CHR 0x27] @ '', ''
               @ [CHR 0x27] @ ''std_dev'' @ [CHR 0x27] @ '', ''
               @ [CHR 0x27] @ ''variance'' @ [CHR 0x27] @ '']''))
         | Some f \<Rightarrow>
             (case f numbers of
                Inl e \<Rightarrow> Inl e
              | Inr r \<Rightarrow> Inr \<lparr>operation = op, input_data = numbers, result = r,
                               count = length numbers\<rparr>)))"

text \<open>
  The vocabulary of the specification: a value is most frequent in a list when no value of
  the list occurs more often; a list has no unique mode when two different values of it
  are both most frequent.
\<close>

definition most_frequent :: "real list \<Rightarrow> real \<Rightarrow> bool" where
  "most_frequent xs x = list_all (\<lambda>z. count_list xs z \<le> count_list xs x) xs"

definition no_unique_mode :: "real list \<Rightarrow> bool" where
  "no_unique_mode xs =
     list_ex (\<lambda>x. list_ex (\<lambda>y. x \<noteq> y \<and> most_frequent xs x \<and> most_frequent xs y) xs) xs"

section \<open>The expression evaluator\<close>

text \<open>
  The evaluator hands its text to Python's \<open>eval\<close> and converts the outcome with
  \<open>float\<close>. The value it returns is a Python float as the interpreter made it; the
  evaluator does no arithmetic of its own. Such a float is finite, or one of the three
  non-finite values.
\<close>

datatype pyfloat = Finite real | PosInf | NegInf | NaN

definition isfinite :: "pyfloat \<Rightarrow> bool" where
  "isfinite x = (case x of Finite r \<Rightarrow> True | _ \<Rightarrow> False)"

definition allowed_chars :: string where
  "allowed_chars = ''0123456789+-*/.()e''"

text \<open>
  \<open>allowed_functions\<close> is a Python set of strings. The order in which the loop of line 103
  visits it is not fixed by the program (it depends on the hashes of the strings), so the
  functions below take the order of the visit as their first argument. This list is the
  order in which the set is written.
\<close>

definition allowed_functions :: "string list" where
  "allowed_functions = [''sin'', ''cos'', ''tan'', ''log'', ''sqrt'', ''abs'', ''pow'']"

text \<open>\<open>sub in s\<close> on strings: \<open>sub\<close> occurs in \<open>s\<close> as a contiguous part.\<close>

fun contains :: "string \<Rightarrow> string \<Rightarrow> bool" where
  "contains sub [] = (sub = [])"
| "contains sub (c # cs) = (take (length sub) (c # cs) = sub \<or> contains sub cs)"

text \<open>
  \<open>s.replace(old, new)\<close>: the occurrences of \<open>old\<close> are found from the left and do not
  overlap. For an empty \<open>old\<close> Python puts \<open>new\<close> before every character and at the end.
\<close>

function replace :: "string \<Rightarrow> string \<Rightarrow> string \<Rightarrow> string" where
  "replace [] old new = (if old = [] then new else [])"
| "replace (c # cs) old new =
     (if old = [] then new @ c # replace cs old new
      else if take (length old) (c # cs) = old
        then new @ replace (drop (length old) (c # cs)) old new
      else c # replace cs old new)"
  by pat_completeness auto
termination
  by (relation "measure (\<lambda>(s, old, new). length s)") auto

text \<open>
  The loop of lines 102 to 106: the test is on \<open>clean_expr\<close>, the replacement is done on
  the text rewritten so far.
\<close>

definition safe_expr :: "string list \<Rightarrow> string \<Rightarrow> string" where
  "safe_expr order clean_expr =
     fold (\<lambda>func safe.
             if contains func clean_expr then
               (if func \<noteq> ''abs'' then replace safe func (''math.'' @ func) else safe)
             else safe)
       order clean_expr"

text \<open>
  \<open>safe_eval_expression\<close> up to the \<open>try\<close> block (lines 90 to 106): the error raised by the
  character check, or the text that is then handed to \<open>eval\<close>.
\<close>

definition prepare :: "string list \<Rightarrow> string \<Rightarrow> error + string" where
  "prepare order expression =
     (let clean_expr = filter (\<lambda>c. c \<noteq> CHR '' '') expression
      in if \<not> list_all (\<lambda>c. c \<in> set allowed_chars \<or> isalpha c) clean_expr
         then Inl (ValueError ''Expression contains invalid characters'')
         else Inr (safe_expr order clean_expr))"

text \<open>
  The \<open>try\<close> block (lines 109 to 114). \<open>eval\<close> is the interpreter's, not code of the
  repository, so it is an argument of the model: an evaluator maps the text to the float
  that \<open>float(eval(text, allowed_globals, {}))\<close> yields, or to the message \<open>str(e)\<close> of
  the exception \<open>e\<close> that it raises. Every such exception is caught by
  \<open>except Exception\<close> and raised again as a \<open>ValueError\<close>.
\<close>

type_synonym evaluator = "string \<Rightarrow> string + pyfloat"

definition safe_eval_expression :: "string list \<Rightarrow> evaluator \<Rightarrow> string \<Rightarrow> error + pyfloat" where
  "safe_eval_expression order eval expression =
     (case prepare order expression of
        Inl e \<Rightarrow> Inl e
      | Inr safe \<Rightarrow>
          (case eval safe of
             Inl msg \<Rightarrow> Inl (ValueError (''Invalid expression: '' @ msg))
           | Inr r \<Rightarrow> Inr r))"

text \<open>
  The vocabulary of the specification: a character outside the allowlist (not a space,
  which is stripped, not one of the allowed characters and not a letter), and the
  alphabetic runs of a text, its maximal sequences of letters.
\<close>

definition invalid_char :: "char \<Rightarrow> bool" where
  "invalid_char c = (c \<noteq> CHR '' '' \<and> c \<notin> set allowed_chars \<and> \<not> isalpha c)"

fun alpha_runs_from :: "string \<Rightarrow> string \<Rightarrow> string list" where
  "alpha_runs_from run [] = (if run = [] then [] else [run])"
| "alpha_runs_from run (c # cs) =
     (if isalpha c then alpha_runs_from (run @ [c]) cs
      else (if run = [] then [] else [run]) @ alpha_runs_from [] cs)"

definition alpha_runs :: "string \<Rightarrow> string list" where
  "alpha_runs s = alpha_runs_from [] s"

section \<open>The calculate tool and the session history\<close>

text \<open>
  The session context holds the calculation history, a list of entries; \<open>calculate\<close>
  appends to it in place. The model passes the context in and returns it with the outcome,
  so that the history after a raise is seen. The fields of the records carry a prefix where
  two of them would have the same name.
\<close>

record history_entry =
  entry_type :: string
  entry_expression :: string
  entry_result :: pyfloat
  entry_timestamp :: string

record AppContext =
  calculation_history :: "history_entry list"

record CalculationResult =
  calc_expression :: string
  calc_result :: pyfloat
  calc_timestamp :: string

text \<open>
  \<open>calculate\<close> (lines 138 to 169). \<open>now\<close> is the text of \<open>datetime.now().isoformat()\<close>
  read during the call.
\<close>

definition calculate ::
  "string list \<Rightarrow> evaluator \<Rightarrow> string \<Rightarrow> string \<Rightarrow> AppContext
    \<Rightarrow> (error + CalculationResult) \<times> AppContext" where
  "calculate order eval now expression ctx =
     (case safe_eval_expression order eval expression of
        Inl e \<Rightarrow> (Inl e, ctx)
      | Inr r \<Rightarrow>
          (Inr \<lparr>calc_expression = expression, calc_result = r, calc_timestamp = now\<rparr>,
           ctx\<lparr>calculation_history := calculation_history ctx @
                 [\<lparr>entry_type = ''calculation'', entry_expression = expression,
                   entry_result = r, entry_timestamp = now\<rparr>]\<rparr>))"

text \<open>\<open>str\<close> of a natural number: its decimal digits.\<close>

function str_nat :: "nat \<Rightarrow> string" where
  "str_nat n =
     (if n < 10 then [''0123456789'' ! n]
      else str_nat (n div 10) @ [''0123456789'' ! (n mod 10)])"
  by pat_completeness auto
termination
  by (relation "measure id") auto

declare str_nat.simps [simp del]

text \<open>
  The line of one entry (line 331). How Python prints a float is the interpreter's matter:
  \<open>str_float\<close> is an argument.
\<close>

definition entry_line :: "(pyfloat \<Rightarrow> string) \<Rightarrow> nat \<Rightarrow> history_entry \<Rightarrow> string" where
  "entry_line str_float i entry =
     str_nat i @ ''. '' @ entry_expression entry @ '' = '' @ str_float (entry_result entry)
       @ '' (at '' @ entry_timestamp entry @ '')\<newline>''"

text \<open>
  \<open>get_calculation_history\<close> (lines 321 to 336). \<open>history[-10:]\<close> drops all but the last
  ten entries, and none when there are fewer; \<open>enumerate(_, 1)\<close> numbers them from 1.
\<close>

definition get_calculation_history :: "(pyfloat \<Rightarrow> string) \<Rightarrow> AppContext \<Rightarrow> string" where
  "get_calculation_history str_float ctx =
     (let history = calculation_history ctx
      in if history = [] then ''No calculations performed yet in this session.''
         else
           (let history_text =
                  fold (\<lambda>(i, entry) text. text @ entry_line str_float i entry)
                    (enumerate 1 (drop (length history - 10) history))
                    ''Calculation History:\<newline>\<newline>''
            in if length history > 10
               then history_text @ ''\<newline>... and '' @ str_nat (length history - 10)
                      @ '' more calculations''
               else history_text))"

text \<open>
  The reading of the specification: the last ten records at most, the most recent first.
\<close>

definition most_recent_first :: "history_entry list \<Rightarrow> history_entry list" where
  "most_recent_first history = take 10 (rev history)"

section \<open>Facts about the interpreter, for the examples\<close>

text \<open>
  The closed examples below need the outcome of \<open>eval\<close> on a few texts and the printed form
  of a few floats. These two tables hold them, and nothing else: \<open>2+3\<close> is 5 and \<open>6*7\<close> is
  42 (the repository's tests assert both through \<open>safe_eval_expression\<close>), the literal
  \<open>1e999\<close> is beyond the largest double and Python reads it as \<open>inf\<close>, the names
  \<open>importos\<close> and \<open>comath\<close> are not defined, and the module \<open>math\<close> has no attribute
  \<open>comath\<close>. A text that is not in the table is answered with an
  exception, on which no statement below relies. The theorems themselves hold for every
  evaluator and every way of printing.
\<close>

definition eval_facts :: evaluator where
  "eval_facts text =
     (if text = ''2+3'' then Inr (Finite 5)
      else if text = ''6*7'' then Inr (Finite 42)
      else if text = ''1e999'' then Inr PosInf
      else if text = ''importos''
        then Inl (''name '' @ [CHR 0x27] @ ''importos'' @ [CHR 0x27] @ '' is not defined'')
      else if text = ''comath.sin(1)''
        then Inl (''name '' @ [CHR 0x27] @ ''comath'' @ [CHR 0x27] @ '' is not defined'')
      else if text = ''math.comath.sin(1)''
        then Inl (''module '' @ [CHR 0x27] @ ''math'' @ [CHR 0x27] @ '' has no attribute ''
                   @ [CHR 0x27] @ ''comath'' @ [CHR 0x27])
      else Inl ''not tabulated'')"

definition str_float_facts :: "pyfloat \<Rightarrow> string" where
  "str_float_facts x =
     (if x = Finite 5 then ''5.0''
      else if x = Finite 42 then ''42.0''
      else if x = PosInf then ''inf''
      else ''?'')"

definition first_entry :: history_entry where
  "first_entry = \<lparr>entry_type = ''calculation'', entry_expression = ''2 + 3'',
                   entry_result = Finite 5, entry_timestamp = ''2025-03-01T10:00:00.000001''\<rparr>"

definition second_entry :: history_entry where
  "second_entry = \<lparr>entry_type = ''calculation'', entry_expression = ''6 * 7'',
                    entry_result = Finite 42, entry_timestamp = ''2025-03-01T10:00:07.000002''\<rparr>"

section \<open>The order in which the set of names is visited\<close>









section \<open>Lower-casing\<close>

lemma char_eq_code: "c = d \<longleftrightarrow> (of_char c :: nat) = of_char d"
  by simp

lemma lower_char_eq_f: "lower_char c = CHR ''f'' \<longleftrightarrow> c = CHR ''f'' \<or> c = CHR ''F''"
proof -
  have "(of_char c :: nat) < 256" by simp
  then show ?thesis
    by (auto simp: lower_char_def Let_def char_eq_code[of _ "CHR ''f''"]
          char_eq_code[of _ "CHR ''F''"] char_of_eq_iff take_bit_eq_mod)
qed

lemma lower_char_eq_k: "lower_char c = CHR ''k'' \<longleftrightarrow> c = CHR ''k'' \<or> c = CHR ''K''"
proof -
  have "(of_char c :: nat) < 256" by simp
  then show ?thesis
    by (auto simp: lower_char_def Let_def char_eq_code[of _ "CHR ''k''"]
          char_eq_code[of _ "CHR ''K''"] char_of_eq_iff take_bit_eq_mod)
qed

lemma lower_eq_f: "lower u = ''f'' \<longleftrightarrow> u = ''f'' \<or> u = ''F''"
  by (cases u) (auto simp: lower_def lower_char_eq_f)

lemma lower_eq_k: "lower u = ''k'' \<longleftrightarrow> u = ''k'' \<or> u = ''K''"
  by (cases u) (auto simp: lower_def lower_char_eq_k)

lemma lower_char_idem: "lower_char (lower_char c) = lower_char c"
proof -
  have "(of_char c :: nat) < 256" by simp
  then show ?thesis
    by (auto simp: lower_char_def Let_def)
qed

lemma lower_idem: "lower (lower u) = lower u"
  by (simp add: lower_def lower_char_idem)

lemmas lower_eval = lower_def lower_char_def char_of_eq_iff

section \<open>Properties of the temperature conversion\<close>

text \<open>
  Claim C6. For every value and every pair of unit codes, \<open>convert_temperature\<close> goes
  through Celsius: the source code is read case-insensitively as \<open>f\<close>, \<open>k\<close> or, for any
  other text, Celsius, and the value is taken to Celsius by \<open>(v - 32) * 5 / 9\<close>,
  \<open>v - 273.15\<close> or unchanged; the target code is read the same way and the Celsius value
  is taken to it by \<open>v * 9 / 5 + 32\<close>, \<open>v + 273.15\<close> or unchanged. The function has no
  failing branch. The four values of the specification follow.
\<close>

theorem convert_temperature_pivot:
  "convert_temperature v a b = from_celsius (temp_unit_of b) (to_celsius (temp_unit_of a) v)
   \<and> convert_temperature 0 ''c'' ''f'' = 32
   \<and> convert_temperature 100 ''c'' ''f'' = 212
   \<and> convert_temperature 32 ''f'' ''c'' = 0
   \<and> convert_temperature 0 ''c'' ''k'' = 273.15"
  by (simp add: convert_temperature_def temp_unit_of_def lower_eq_f lower_eq_k)

theorem convert_temperature_pivot_witness:
  "convert_temperature 212 ''F'' ''K'' = 373.15
   \<and> convert_temperature 5 ''rankine'' ''C'' = 5"
  using convert_temperature_pivot [of 212 "''F''" "''K''"]
    convert_temperature_pivot [of 5 "''rankine''" "''C''"]
  by (simp add: temp_unit_of_def)

section \<open>Properties of the unit conversion\<close>

text \<open>
  Claim C10. The unit type is compared as it is written, the unit symbols after
  lower-casing. Every call whose unit type is not exactly \<open>temperature\<close>, \<open>length\<close> or
  \<open>weight\<close> raises the unknown-unit-type error, whatever the symbols; and lower-casing the
  two symbols never changes whether a call succeeds nor the value it converts to.
\<close>

theorem convert_units_unit_type_exact:
  "(unit_type \<noteq> ''temperature'' \<and> unit_type \<noteq> ''length'' \<and> unit_type \<noteq> ''weight'' \<longrightarrow>
      convert_units v a b unit_type =
        Inl (ValueError (''Unknown unit type '' @ [CHR 0x27] @ unit_type @ [CHR 0x27]
              @ ''. Available: length, weight, temperature'')))
   \<and> converted (convert_units v (lower a) (lower b) unit_type)
       = converted (convert_units v a b unit_type)"
  by (simp add: converted_def convert_units_def conversions_def convert_temperature_def
      lower_idem split: option.splits)

theorem convert_units_unit_type_exact_witness:
  "convert_units 1 ''M'' ''KM'' ''Length'' =
     Inl (ValueError (''Unknown unit type '' @ [CHR 0x27] @ ''Length'' @ [CHR 0x27]
           @ ''. Available: length, weight, temperature''))
   \<and> converted (convert_units 1 ''M'' ''KM'' ''length'') = Some (1 / 1000)"
  using convert_units_unit_type_exact [of "''Length''" 1 "''M''" "''KM''"]
    convert_units_unit_type_exact [of "''length''" 1 "''M''" "''KM''"]
  by (simp add: converted_def convert_units_def conversions_def length_table_def lower_eval)

section \<open>Properties of the statistics tool\<close>

text \<open>
  Claim C7. On the empty list \<open>statistics\<close> raises the error of its first check, whatever
  the operation (also one that does not exist); on a list of one element the operations
  \<open>std_dev\<close> and \<open>variance\<close> return the result 0.
\<close>

theorem statistics_empty_and_single:
  "statistics [] op = Inl (ValueError ''Cannot calculate statistics on empty list'')
   \<and> (op = ''std_dev'' \<or> op = ''variance'' \<longrightarrow>
        statistics [x] op = Inr \<lparr>operation = op, input_data = [x], result = 0, count = 1\<rparr>)"
  by (auto simp: statistics_def operations_def)

theorem statistics_empty_and_single_witness:
  "statistics [] ''mean'' = Inl (ValueError ''Cannot calculate statistics on empty list'')
   \<and> statistics [42] ''std_dev''
       = Inr \<lparr>operation = ''std_dev'', input_data = [42], result = 0, count = 1\<rparr>
   \<and> statistics [42] ''variance''
       = Inr \<lparr>operation = ''variance'', input_data = [42], result = 0, count = 1\<rparr>"
  using statistics_empty_and_single [of "''mean''" 42]
    statistics_empty_and_single [of "''std_dev''" 42]
    statistics_empty_and_single [of "''variance''" 42]
  by simp

lemma find_filter_neq: "\<not> P x \<Longrightarrow> find P (filter (\<lambda>y. y \<noteq> x) ys) = find P ys"
  by (induction ys) auto

lemma find_first_seen: "find P (first_seen xs) = find P xs"
  by (induction xs) (auto simp: find_filter_neq)

lemma set_first_seen: "set (first_seen xs) = set xs"
  by (induction xs) auto

lemma find_map: "find P (map f xs) = map_option f (find (P \<circ> f) xs)"
  by (induction xs) auto

text \<open>The scan returns the first item that no item of the list exceeds.\<close>

lemma first_max_find:
  "find (\<lambda>p. \<forall>q \<in> set (best # ps). snd q \<le> snd p) (best # ps) = Some (first_max ps best)"
proof (induction ps arbitrary: best)
  case Nil
  then show ?case by simp
next
  case (Cons p ps)
  show ?case
  proof (cases "snd best < snd p")
    case True
    then have eq: "(\<lambda>x. \<forall>q \<in> set (best # p # ps). snd q \<le> snd x)
                 = (\<lambda>x. \<forall>q \<in> set (p # ps). snd q \<le> snd x)"
      by (auto simp: fun_eq_iff)
    have "\<not> (\<forall>q \<in> set (p # ps). snd q \<le> snd best)"
      using True by auto
    then have "find (\<lambda>x. \<forall>q \<in> set (p # ps). snd q \<le> snd x) (best # p # ps)
               = find (\<lambda>x. \<forall>q \<in> set (p # ps). snd q \<le> snd x) (p # ps)"
      by (simp only: find.simps if_False)
    with Cons [of p] True show ?thesis
      by (simp only: eq first_max.simps if_True)
  next
    case False
    then have eq: "(\<lambda>x. \<forall>q \<in> set (best # p # ps). snd q \<le> snd x)
                 = (\<lambda>x. \<forall>q \<in> set (best # ps). snd q \<le> snd x)"
      by (auto simp: fun_eq_iff)
    have "(\<forall>q \<in> set (best # ps). snd q \<le> snd p) \<Longrightarrow> (\<forall>q \<in> set (best # ps). snd q \<le> snd best)"
      using False by auto
    then have "find (\<lambda>x. \<forall>q \<in> set (best # ps). snd q \<le> snd x) (best # p # ps)
               = find (\<lambda>x. \<forall>q \<in> set (best # ps). snd q \<le> snd x) (best # ps)"
      by (auto simp del: set_simps)
    with Cons [of best] False show ?thesis
      by (simp only: eq first_max.simps if_False)
  qed
qed

lemma counter_nonempty: "xs \<noteq> [] \<Longrightarrow> counter xs \<noteq> []"
  by (cases xs) (simp_all add: counter_def)

lemma stats_mode_first:
  assumes "xs \<noteq> []"
  shows "\<exists>m. stats_mode xs = Inr m \<and> find (most_frequent xs) xs = Some m"
proof -
  from counter_nonempty [OF assms] obtain p ps where c: "counter xs = p # ps"
    by (cases "counter xs") auto
  let ?top = "\<lambda>p. \<forall>q \<in> set (counter xs). snd q \<le> snd p"
  have "find ?top (counter xs) = Some (first_max ps p)"
    unfolding c by (rule first_max_find)
  moreover have "?top \<circ> (\<lambda>x. (x, count_list xs x)) = most_frequent xs"
    by (auto simp: fun_eq_iff most_frequent_def counter_def set_first_seen list_all_iff)
  ultimately have "map_option (\<lambda>x. (x, count_list xs x)) (find (most_frequent xs) xs)
                   = Some (first_max ps p)"
    by (simp add: counter_def find_map find_first_seen)
  then have "find (most_frequent xs) xs = Some (fst (first_max ps p))"
    by (auto dest: arg_cong [where f = fst])
  then show ?thesis by (simp add: stats_mode_def c)
qed

text \<open>
  Claim C5, as the specification states it, fails: the list 1, 1, 2, 2 has no unique mode,
  and the operation \<open>mode\<close> returns 1 for it.
\<close>

theorem statistics_mode_tie_returns:
  "no_unique_mode [1, 1, 2, 2]
   \<and> statistics [1, 1, 2, 2] ''mode''
       = Inr \<lparr>operation = ''mode'', input_data = [1, 1, 2, 2], result = 1, count = 4\<rparr>"
  by (simp add: no_unique_mode_def most_frequent_def statistics_def operations_def
      stats_mode_def counter_def)

text \<open>
  Claim C5, amended. For every list that is not empty, with a unique mode or without, the
  operation \<open>mode\<close> returns a result: the first value of the list, in the order of the
  list, that no other value exceeds in multiplicity.
\<close>

theorem statistics_mode_first_most_frequent:
  assumes "numbers \<noteq> []"
  shows "\<exists>m. statistics numbers ''mode''
              = Inr \<lparr>operation = ''mode'', input_data = numbers, result = m,
                     count = length numbers\<rparr>
           \<and> find (most_frequent numbers) numbers = Some m"
proof -
  from stats_mode_first [OF assms] obtain m
    where "stats_mode numbers = Inr m" "find (most_frequent numbers) numbers = Some m"
    by blast
  with assms show ?thesis
    by (simp add: statistics_def operations_def)
qed

theorem statistics_mode_first_most_frequent_witness:
  "[3, 2, 2, 3, 1] \<noteq> ([] :: real list)
   \<and> statistics [3, 2, 2, 3, 1] ''mode''
       = Inr \<lparr>operation = ''mode'', input_data = [3, 2, 2, 3, 1], result = 3, count = 5\<rparr>"
  using statistics_mode_first_most_frequent [of "[3, 2, 2, 3, 1]"]
  by (simp add: most_frequent_def)

section \<open>Properties of the expression evaluator\<close>

lemmas evaluator_eval =
  prepare_def safe_expr_def allowed_chars_def allowed_functions_def isalpha_def

lemma prepare_cases:
  "prepare order s =
     (if list_ex invalid_char s then Inl (ValueError ''Expression contains invalid characters'')
      else Inr (safe_expr order (filter (\<lambda>c. c \<noteq> CHR '' '') s)))"
  by (auto simp: prepare_def Let_def list_all_iff list_ex_iff invalid_char_def)

lemma safe_eval_invalid:
  "list_ex invalid_char s \<Longrightarrow>
    safe_eval_expression order eval s = Inl (ValueError ''Expression contains invalid characters'')"
  by (simp add: prepare_cases safe_eval_expression_def)

lemma safe_eval_outcome:
  "(\<exists>msg. safe_eval_expression order eval s = Inl (ValueError msg))
   \<or> (\<exists>t r. prepare order s = Inr t \<and> eval t = Inr r
          \<and> safe_eval_expression order eval s = Inr r)"
  by (auto simp: prepare_cases safe_eval_expression_def split: sum.splits)

text \<open>
  Claim C1, as the specification states it, fails. The text \<open>asin(1)\<close> has one alphabetic
  run, \<open>asin\<close>, which is not an allowed function name; the check lets it pass, the \<open>sin\<close>
  inside it is rewritten, and \<open>amath.sin(1)\<close> is handed to \<open>eval\<close>. Only \<open>sin\<close> occurs in
  the text, so the order of the loop plays no part. In the same way \<open>1e2 + 50\<close>, with its
  run \<open>e\<close>, reaches \<open>eval\<close>, where the repository's tests expect 150 of it.
\<close>

theorem disallowed_run_reaches_eval:
  "alpha_runs ''asin(1)'' = [''asin'']
   \<and> ''asin'' \<notin> set allowed_functions
   \<and> prepare allowed_functions ''asin(1)'' = Inr ''amath.sin(1)''
   \<and> alpha_runs ''1e2 + 50'' = [''e'']
   \<and> ''e'' \<notin> set allowed_functions
   \<and> prepare allowed_functions ''1e2 + 50'' = Inr ''1e2+50''"
  by (simp add: alpha_runs_def evaluator_eval)

text \<open>
  Claim C1, amended. A text is rejected before evaluation exactly when it holds a
  character outside the allowlist, and then with the error of the character check.
  Alphabetic runs are not compared with the allowed names: every text of spaces, allowed
  characters and letters, whatever its alphabetic runs, passes the check, a text is handed
  to \<open>eval\<close>, and the outcome of the call is the outcome of that evaluation, a failure of
  which is reported as a \<open>ValueError\<close>.
\<close>

theorem rejected_before_eval_iff_invalid_char:
  "((\<exists>e. prepare order s = Inl e) \<longleftrightarrow> list_ex invalid_char s)
   \<and> (prepare order s = Inl e \<longrightarrow> e = ValueError ''Expression contains invalid characters'')
   \<and> (prepare order s = Inr t \<longrightarrow>
        safe_eval_expression order eval s =
          (case eval t of Inl msg \<Rightarrow> Inl (ValueError (''Invalid expression: '' @ msg))
                        | Inr r \<Rightarrow> Inr r))"
  by (auto simp: prepare_cases safe_eval_expression_def)

theorem rejected_before_eval_iff_invalid_char_witness:
  "prepare allowed_functions ''2;3'' = Inl (ValueError ''Expression contains invalid characters'')
   \<and> list_ex invalid_char ''2;3''
   \<and> prepare allowed_functions ''import os'' = Inr ''importos''
   \<and> safe_eval_expression allowed_functions eval_facts ''import os''
       = Inl (ValueError (''Invalid expression: name '' @ [CHR 0x27] @ ''importos'' @ [CHR 0x27]
               @ '' is not defined''))"
proof -
  have a: "prepare allowed_functions ''2;3''
           = Inl (ValueError ''Expression contains invalid characters'')"
    by (simp add: evaluator_eval)
  have b: "prepare allowed_functions ''import os'' = Inr ''importos''"
    by (simp add: evaluator_eval)
  from rejected_before_eval_iff_invalid_char
         [of allowed_functions "''2;3''" "ValueError ''Expression contains invalid characters''"]
       a
  have "list_ex invalid_char ''2;3''" by blast
  moreover
  from rejected_before_eval_iff_invalid_char
         [of allowed_functions "''import os''" _ "''importos''" eval_facts] b
  have "safe_eval_expression allowed_functions eval_facts ''import os''
        = Inl (ValueError (''Invalid expression: name '' @ [CHR 0x27] @ ''importos'' @ [CHR 0x27]
                @ '' is not defined''))"
    by (simp add: eval_facts_def)
  ultimately show ?thesis using a b by simp
qed

text \<open>
  Claim C2, as the specification states it, fails: the literal \<open>1e999\<close> passes the
  character check, Python evaluates it to infinity, and the evaluator returns that value.
\<close>

theorem non_finite_result_returned:
  "safe_eval_expression allowed_functions eval_facts ''1e999'' = Inr PosInf
   \<and> \<not> isfinite PosInf"
  by (simp add: safe_eval_expression_def evaluator_eval eval_facts_def isfinite_def)

text \<open>
  Claim C2, amended. For every text, \<open>safe_eval_expression\<close> either fails with a
  \<open>ValueError\<close> that carries a message, or returns the float that the evaluation of the
  rewritten text produced, as it is: the value is not checked, and may be infinite or NaN.
  No exception raised by the evaluation leaves the function as another kind of error.
\<close>

theorem safe_eval_expression_outcome:
  "(\<exists>msg. safe_eval_expression order eval s = Inl (ValueError msg))
   \<or> (\<exists>t r. prepare order s = Inr t \<and> eval t = Inr r
          \<and> safe_eval_expression order eval s = Inr r)"
  by (rule safe_eval_outcome)

theorem safe_eval_expression_outcome_witness:
  "safe_eval_expression allowed_functions eval_facts ''2 + 3'' = Inr (Finite 5)
   \<and> safe_eval_expression allowed_functions eval_facts ''import os''
       = Inl (ValueError (''Invalid expression: name '' @ [CHR 0x27] @ ''importos'' @ [CHR 0x27]
               @ '' is not defined''))"
  using safe_eval_expression_outcome [of allowed_functions eval_facts "''2 + 3''"]
    safe_eval_expression_outcome [of allowed_functions eval_facts "''import os''"]
  by (simp add: safe_eval_expression_def evaluator_eval eval_facts_def)

section \<open>Properties of the calculate tool and of the history\<close>

text \<open>
  Claim C4. A text with a character outside the allowlist makes \<open>calculate\<close> fail with the
  error of the character check. Whenever the evaluator rejects the text, in the check or in
  the evaluation, \<open>calculate\<close> fails with that \<open>ValueError\<close> and the session history is
  what it was. Whenever the evaluator returns a value, \<open>calculate\<close> succeeds and the
  history is the former one with exactly one record appended, the record of this call.
\<close>

theorem calculate_history:
  "(list_ex invalid_char expression \<longrightarrow>
      calculate order eval now expression ctx
        = (Inl (ValueError ''Expression contains invalid characters''), ctx))
   \<and> (safe_eval_expression order eval expression = Inl e \<longrightarrow>
        (\<exists>msg. e = ValueError msg) \<and> calculate order eval now expression ctx = (Inl e, ctx))
   \<and> (safe_eval_expression order eval expression = Inr r \<longrightarrow>
        (\<exists>res ctx'. calculate order eval now expression ctx = (Inr res, ctx')
           \<and> calc_result res = r
           \<and> calculation_history ctx' = calculation_history ctx @
                [\<lparr>entry_type = ''calculation'', entry_expression = expression,
                  entry_result = r, entry_timestamp = now\<rparr>]
           \<and> length (calculation_history ctx') = length (calculation_history ctx) + 1))"
  using safe_eval_outcome [of order eval expression]
  by (auto simp: calculate_def safe_eval_invalid)

theorem calculate_history_witness:
  "list_ex invalid_char ''__import__(1)''
   \<and> calculate allowed_functions eval_facts ''2025-03-01T10:00:09'' ''__import__(1)''
         \<lparr>calculation_history = [first_entry]\<rparr>
       = (Inl (ValueError ''Expression contains invalid characters''),
          \<lparr>calculation_history = [first_entry]\<rparr>)
   \<and> calculate allowed_functions eval_facts ''2025-03-01T10:00:09'' ''import os''
         \<lparr>calculation_history = [first_entry]\<rparr>
       = (Inl (ValueError (''Invalid expression: name '' @ [CHR 0x27] @ ''importos''
                 @ [CHR 0x27] @ '' is not defined'')),
          \<lparr>calculation_history = [first_entry]\<rparr>)
   \<and> calculate allowed_functions eval_facts ''2025-03-01T10:00:07.000002'' ''6 * 7''
         \<lparr>calculation_history = [first_entry]\<rparr>
       = (Inr \<lparr>calc_expression = ''6 * 7'', calc_result = Finite 42,
                calc_timestamp = ''2025-03-01T10:00:07.000002''\<rparr>,
          \<lparr>calculation_history = [first_entry, second_entry]\<rparr>)"
proof -
  let ?ctx = "\<lparr>calculation_history = [first_entry]\<rparr>"
  have a: "list_ex invalid_char ''__import__(1)''"
    by (simp add: invalid_char_def allowed_chars_def isalpha_def)
  have b: "safe_eval_expression allowed_functions eval_facts ''import os''
           = Inl (ValueError (''Invalid expression: name '' @ [CHR 0x27] @ ''importos''
                   @ [CHR 0x27] @ '' is not defined''))"
    by (simp add: safe_eval_expression_def evaluator_eval eval_facts_def)
  have c: "safe_eval_expression allowed_functions eval_facts ''6 * 7'' = Inr (Finite 42)"
    by (simp add: safe_eval_expression_def evaluator_eval eval_facts_def)
  note t = calculate_history [of _ allowed_functions eval_facts _ ?ctx]
  from t [of "''__import__(1)''" "''2025-03-01T10:00:09''"] a
  have "calculate allowed_functions eval_facts ''2025-03-01T10:00:09'' ''__import__(1)'' ?ctx
        = (Inl (ValueError ''Expression contains invalid characters''), ?ctx)"
    by blast
  moreover
  from t [of "''import os''" "''2025-03-01T10:00:09''"] b
  have "calculate allowed_functions eval_facts ''2025-03-01T10:00:09'' ''import os'' ?ctx
        = (Inl (ValueError (''Invalid expression: name '' @ [CHR 0x27] @ ''importos''
                  @ [CHR 0x27] @ '' is not defined'')), ?ctx)"
    by blast
  moreover
  from t [of "''6 * 7''" "''2025-03-01T10:00:07.000002''" _ "Finite 42"] c
  have "calculate allowed_functions eval_facts ''2025-03-01T10:00:07.000002'' ''6 * 7'' ?ctx
        = (Inr \<lparr>calc_expression = ''6 * 7'', calc_result = Finite 42,
                 calc_timestamp = ''2025-03-01T10:00:07.000002''\<rparr>,
           \<lparr>calculation_history = [first_entry, second_entry]\<rparr>)"
    by (simp add: calculate_def second_entry_def)
  ultimately show ?thesis using a by simp
qed

lemma fold_append_lines:
  "fold (\<lambda>x text. text @ f x) xs init = init @ concat (map f xs)"
  by (induction xs arbitrary: init) auto

lemma enumerate_map_nth:
  "enumerate n xs = map (\<lambda>k. (n + k, xs ! k)) [0..<length xs]"
  by (rule nth_equalityI) (auto simp: nth_enumerate_eq)

lemmas history_eval =
  get_calculation_history_def entry_line_def enumerate_eq_zip str_float_facts_def
  str_nat.simps upt_rec first_entry_def second_entry_def

text \<open>
  Claim C3, as the specification states it, fails. With two records in the history, the
  one appended first is rendered first, as number 1; most recent first would be the other
  way round.
\<close>

theorem history_oldest_of_the_shown_first:
  "get_calculation_history str_float_facts \<lparr>calculation_history = [first_entry, second_entry]\<rparr>
     = ''Calculation History:\<newline>\<newline>''
       @ ''1. 2 + 3 = 5.0 (at 2025-03-01T10:00:00.000001)\<newline>''
       @ ''2. 6 * 7 = 42.0 (at 2025-03-01T10:00:07.000002)\<newline>''
   \<and> most_recent_first [first_entry, second_entry] = [second_entry, first_entry]
   \<and> get_calculation_history str_float_facts \<lparr>calculation_history = [first_entry, second_entry]\<rparr>
     \<noteq> ''Calculation History:\<newline>\<newline>''
       @ entry_line str_float_facts 1 second_entry @ entry_line str_float_facts 2 first_entry"
  by (simp add: history_eval most_recent_first_def)

text \<open>
  Claim C3, amended. Read against a history of n records, the resource returns the fixed
  text when n = 0. Otherwise it returns the heading, then one line for each of the last
  min(n, 10) records in the order in which they were appended, the oldest of them first,
  numbered from 1; and, when n exceeds 10, a closing line that counts the n - 10 records
  not shown.
\<close>

theorem history_renders_last_ten_in_order:
  "get_calculation_history str_float \<lparr>calculation_history = []\<rparr>
     = ''No calculations performed yet in this session.''
   \<and> (history \<noteq> [] \<longrightarrow>
        get_calculation_history str_float \<lparr>calculation_history = history\<rparr>
          = ''Calculation History:\<newline>\<newline>''
            @ concat (map (\<lambda>k. entry_line str_float (k + 1)
                                  (drop (length history - min (length history) 10) history ! k))
                        [0..<min (length history) 10])
            @ (if 10 < length history
               then ''\<newline>... and '' @ str_nat (length history - 10) @ '' more calculations''
               else []))"
proof -
  have m: "length history - min (length history) 10 = length history - 10"
    by auto
  have l: "length (drop (length history - 10) history) = min (length history) 10"
    by auto
  show ?thesis
    by (simp add: get_calculation_history_def Let_def fold_append_lines enumerate_map_nth
         m l split_def comp_def del: length_drop)
qed

theorem history_renders_last_ten_in_order_witness:
  "second_entry # replicate 10 first_entry \<noteq> []
   \<and> get_calculation_history str_float_facts
         \<lparr>calculation_history = second_entry # replicate 10 first_entry\<rparr>
       = ''Calculation History:\<newline>\<newline>''
         @ concat (map (\<lambda>k. entry_line str_float_facts (k + 1) first_entry) [0..<10])
         @ ''\<newline>... and 1 more calculations''"
proof -
  have "map (\<lambda>k. entry_line str_float_facts (Suc k) (replicate 10 first_entry ! k)) [0..<10]
        = map (\<lambda>k. entry_line str_float_facts (Suc k) first_entry) [0..<10]"
    by (rule map_cong) auto
  with history_renders_last_ten_in_order
         [of str_float_facts "second_entry # replicate 10 first_entry"]
  show ?thesis
    by (simp add: str_nat.simps)
qed

section \<open>Properties of the visit order\<close>













































end
